theory Spec2Isabelle
  imports Main
begin

section \<open>The configuration-package generator of go-project-config\<close>

text \<open>
  A shallow embedding of package \<open>cfg\<close>: the string helper \<open>toCamelCase\<close>
  (string.go), the struct-field synthesizer \<open>generateStructFromEnvFile\<close> and the
  generator's orchestration (cfg.go), and \<open>formatGoFile\<close>. Go functions returning
  \<open>(value, error)\<close> are modelled as returning a pair whose second component is an
  \<open>error option\<close> (\<open>None\<close> is Go's \<open>nil\<close>); a slice that may be \<open>nil\<close> is a
  \<open>list option\<close>. The substitutable providers (file system, template processor,
  formatter, line reader) are a record of functions over an arbitrary world state.
\<close>

subsection \<open>Errors\<close>

text \<open>
  An error value is either one produced outside the package (with its message and whether
  \<open>os.IsExist\<close> recognises it), or one wrapped by \<open>errors.Wrap\<close>/\<open>errors.Wrapf\<close>
  of github.com/pkg/errors with a context message.
\<close>

datatype error = Errno bool string | Wrapped error string

fun error_Error :: "error \<Rightarrow> string" where
  "error_Error (Errno _ msg) = msg"
| "error_Error (Wrapped cause msg) = msg @ '': '' @ error_Error cause"

text \<open>\<open>os.IsExist\<close> does not look through the wrappers of pkg/errors.\<close>

fun os_IsExist :: "error \<Rightarrow> bool" where
  "os_IsExist (Errno exist _) = exist"
| "os_IsExist (Wrapped _ _) = False"

text \<open>\<open>errors.Wrap\<close> on a non-nil error (every call site is under \<open>err != nil\<close>).\<close>

definition errors_Wrap :: "error \<Rightarrow> string \<Rightarrow> error" where
  "errors_Wrap err message = Wrapped err message"

subsection \<open>Strings\<close>

definition TAB :: string where
  "TAB = [CHR 0x09]"


definition toLower_byte :: "char \<Rightarrow> char" where
  "toLower_byte c =
     (let n = (of_char c :: nat) in if 65 \<le> n \<and> n \<le> 90 then char_of (n + 32) else c)"

definition toUpper_byte :: "char \<Rightarrow> char" where
  "toUpper_byte c =
     (let n = (of_char c :: nat) in if 97 \<le> n \<and> n \<le> 122 then char_of (n - 32) else c)"

definition isLetter_byte :: "char \<Rightarrow> bool" where
  "isLetter_byte c =
     (let n = (of_char c :: nat) in (65 \<le> n \<and> n \<le> 90) \<or> (97 \<le> n \<and> n \<le> 122))"

definition isDigit_byte :: "char \<Rightarrow> bool" where
  "isDigit_byte c = (let n = (of_char c :: nat) in 48 \<le> n \<and> n \<le> 57)"

text \<open>\<open>strings.ToLower\<close>: \<open>A\<close> to \<open>Z\<close> become \<open>a\<close> to \<open>z\<close>, the rest is kept.\<close>

definition strings_ToLower :: "string \<Rightarrow> string" where
  "strings_ToLower s = map toLower_byte s"

text \<open>
  The title caser's classes of characters, from the word-break property the library
  uses: the cased characters are the letters; the apostrophe, the full stop and the colon
  are the mid-word punctuation (Single_Quote, MidNumLet, MidLetter); letters, digits
  (Numeric) and the underscore (ExtendNumLet) are word characters; every other character
  is a word break.
\<close>

definition isCased_byte :: "char \<Rightarrow> bool" where
  "isCased_byte c = isLetter_byte c"

definition isMid_byte :: "char \<Rightarrow> bool" where
  "isMid_byte c = (c = CHR 0x27 \<or> c = CHR ''.'' \<or> c = CHR '':'')"

definition isBreak_byte :: "char \<Rightarrow> bool" where
  "isBreak_byte c =
     (\<not> (isLetter_byte c \<or> isDigit_byte c \<or> c = CHR ''_'' \<or> isMid_byte c))"

text \<open>
  The loop of \<open>titleCaser.Transform\<close>, with its flag \<open>isMidWord\<close>: a cased character is
  title-cased when the flag is off, which sets the flag, and lower-cased when it is on;
  any other character is copied, and a word break clears the flag; two mid-word
  punctuation characters in a row clear the flag too.
\<close>

fun titleCaser_Transform :: "bool \<Rightarrow> string \<Rightarrow> string" where
  "titleCaser_Transform isMidWord [] = []"
| "titleCaser_Transform isMidWord (c # src) =
     (let dst = (if isCased_byte c
                 then (if \<not> isMidWord then toUpper_byte c else toLower_byte c)
                 else c);
          isMidWord = (if isCased_byte c then True
                       else if isBreak_byte c then False else isMidWord);
          isMidWord = (case src of
                         [] \<Rightarrow> isMidWord
                       | next # _ \<Rightarrow>
                           if isMid_byte c \<and> isMid_byte next then False else isMidWord)
      in dst # titleCaser_Transform isMidWord src)"

definition cases_Title :: "string \<Rightarrow> string" where
  "cases_Title s = titleCaser_Transform False s"

text \<open>
  \<open>strings.Split\<close> and \<open>strings.SplitN\<close> of the Go standard library, for a separator
  of one byte: both are \<open>genSplit\<close>, which cuts at the first separator at most \<open>n - 1\<close>
  times and puts the rest of the string in the last piece.
\<close>

fun strings_IndexByte :: "string \<Rightarrow> char \<Rightarrow> nat option" where
  "strings_IndexByte [] c = None"
| "strings_IndexByte (x # xs) c =
     (if x = c then Some 0 else map_option Suc (strings_IndexByte xs c))"

definition strings_Count :: "string \<Rightarrow> char \<Rightarrow> nat" where
  "strings_Count s sep = length (filter (\<lambda>c. c = sep) s)"

fun genSplit_loop :: "string \<Rightarrow> char \<Rightarrow> nat \<Rightarrow> string list" where
  "genSplit_loop s sep 0 = [s]"
| "genSplit_loop s sep (Suc k) =
     (case strings_IndexByte s sep of
        None \<Rightarrow> [s]
      | Some m \<Rightarrow> take m s # genSplit_loop (drop (Suc m) s) sep k)"

text \<open>\<open>n = None\<close> is Go's \<open>n < 0\<close> (no limit); the result for \<open>n = 0\<close> is \<open>nil\<close>, of length 0.\<close>

definition genSplit :: "string \<Rightarrow> char \<Rightarrow> nat option \<Rightarrow> string list" where
  "genSplit s sep n =
     (if n = Some 0 then []
      else let n1 = (case n of None \<Rightarrow> strings_Count s sep + 1 | Some k \<Rightarrow> k);
               n2 = (if n1 > length s + 1 then length s + 1 else n1)
           in genSplit_loop s sep (n2 - 1))"

definition strings_Split :: "string \<Rightarrow> char \<Rightarrow> string list" where
  "strings_Split s sep = genSplit s sep None"

definition strings_SplitN :: "string \<Rightarrow> char \<Rightarrow> nat \<Rightarrow> string list" where
  "strings_SplitN s sep n = genSplit s sep (Some n)"

definition strings_Join :: "string list \<Rightarrow> string \<Rightarrow> string" where
  "strings_Join elems sep =
     (case elems of [] \<Rightarrow> [] | e # es \<Rightarrow> e @ concat (map (\<lambda>x. sep @ x) es))"

subsection \<open>The name formatter (string.go)\<close>

text \<open>
  The loop \<open>for i, part := range parts { parts[i] = c.String(strings.ToLower(part)) }\<close>,
  by index, on the slice it updates in place.
\<close>

function toCamelCase_loop :: "nat \<Rightarrow> string list \<Rightarrow> string list" where
  "toCamelCase_loop i parts =
     (if i < length parts
      then toCamelCase_loop (Suc i) (parts[i := cases_Title (strings_ToLower (parts ! i))])
      else parts)"
  by pat_completeness auto
termination
  by (relation "measure (\<lambda>(i, parts). length parts - i)") auto

definition toCamelCase :: "string \<Rightarrow> string" where
  "toCamelCase s = strings_Join (toCamelCase_loop 0 (strings_Split s CHR ''_'')) []"

text \<open>
  The spec's wording of the name formatter, to compare with the code: split on \<open>_\<close>,
  lower-case each token, capitalize its first letter, concatenate with no separator.
\<close>

function tokens_spec :: "string \<Rightarrow> string list" where
  "tokens_spec s =
     (case dropWhile (\<lambda>c. c \<noteq> CHR ''_'') s of
        [] \<Rightarrow> [s]
      | _ # rest \<Rightarrow> takeWhile (\<lambda>c. c \<noteq> CHR ''_'') s # tokens_spec rest)"
  by pat_completeness auto
termination
proof (relation "measure length")
  show "wf (measure length)" by simp
next
  fix s :: string and x rest
  assume "dropWhile (\<lambda>c. c \<noteq> CHR ''_'') s = x # rest"
  then have "length (x # rest) \<le> length s"
    by (metis length_dropWhile_le)
  then show "(rest, s) \<in> measure length" by simp
qed












subsection \<open>Constants (cfg.go and the templates file)\<close>

definition configReadFileName :: string where
  "configReadFileName = ''config.go''"

definition configReaderUnitTestFileName :: string where
  "configReaderUnitTestFileName = ''config_test.go''"

definition envFileName :: string where
  "envFileName = ''.env''"

definition configReaderPkgPlaceHolder :: string where
  "configReaderPkgPlaceHolder = ''ConfigReaderPkgName''"

definition configStructTemplateName :: string where
  "configStructTemplateName = ''ConfigStruct''"

definition defaultConfigStructTemplate :: string where
  \<open>defaultConfigStructTemplate = concat
    [''// Config holds all configuration needed by this app.\<newline>'',
     ''type Config struct {\<newline>'',
     TAB @ ''SampleEnvVar string `envconfig:"SAMPLE_ENV_VAR" required:"true"`\<newline>'',
     ''}'']\<close>

definition configReaderUnitTestFileTemplateName :: string where
  "configReaderUnitTestFileTemplateName = ''configReaderUnitTestFile''"

definition configReaderMainFileTemplateName :: string where
  "configReaderMainFileTemplateName = ''configReaderMainFile''"

definition envFileTemplateName :: string where
  "envFileTemplateName = ''envFile''"

definition envFileTemplate :: string where
  "envFileTemplate = ''SAMPLE_ENV_VAR=some value''"

definition configReaderMainFileTemplatePlaceHolder :: string where
  \<open>configReaderMainFileTemplatePlaceHolder = concat
    [''package {{ .ConfigReaderPkgName }}\<newline>'',
     ''\<newline>'',
     ''import (\<newline>'',
     TAB @ ''"github.com/joho/godotenv"\<newline>'',
     TAB @ ''"github.com/kelseyhightower/envconfig"\<newline>'',
     TAB @ ''"github.com/pkg/errors"\<newline>'',
     '')\<newline>'',
     ''\<newline>'',
     ''{{ .ConfigStruct }}\<newline>'',
     ''\<newline>'',
     ''// For ease of unit testing.\<newline>'',
     ''var (\<newline>'',
     TAB @ ''godotenvLoad     = godotenv.Load\<newline>'',
     TAB @ ''envconfigProcess = envconfig.Process\<newline>'',
     '')\<newline>'',
     ''\<newline>'',
     ''// Read reads configuration from environment variables.\<newline>'',
     ''// It assumes that an '' @ [CHR 0x27] @ ''.env'' @ [CHR 0x27] @ '' file is present at current path.\<newline>'',
     ''func Read() (*Config, error) {\<newline>'',
     TAB @ ''if err := godotenvLoad(); err != nil {\<newline>'',
     TAB @ TAB @ ''return nil, errors.Wrap(err, "loading env vars from .env file")\<newline>'',
     TAB @ ''}\<newline>'',
     TAB @ ''config := new(Config)\<newline>'',
     TAB @ ''if err := envconfigProcess("", config); err != nil {\<newline>'',
     TAB @ TAB @ ''return nil, errors.Wrap(err, "processing env vars")\<newline>'',
     TAB @ ''}\<newline>'',
     TAB @ ''return config, nil\<newline>'',
     ''}\<newline>'',
     ''\<newline>'',
     ''// ReadFromEnvFile reads configuration from the specified environment file.\<newline>'',
     ''func ReadFromEnvFile(envFilePath string) (*Config, error) {\<newline>'',
     TAB @ ''if err := godotenvLoad(envFilePath); err != nil {\<newline>'',
     TAB @ TAB @ ''return nil, errors.Wrapf(err, "loading env vars from %s", envFilePath)\<newline>'',
     TAB @ ''}\<newline>'',
     TAB @ ''config := new(Config)\<newline>'',
     TAB @ ''if err := envconfigProcess("", config); err != nil {\<newline>'',
     TAB @ TAB @ ''return nil, errors.Wrap(err, "processing env vars")\<newline>'',
     TAB @ ''}\<newline>'',
     TAB @ ''return config, nil\<newline>'',
     ''}\<newline>'']\<close>

definition configReaderUnitTestFileTemplate :: string where
  \<open>configReaderUnitTestFileTemplate = concat
    [''package {{ .ConfigReaderPkgName }}\<newline>'',
     ''\<newline>'',
     ''import (\<newline>'',
     TAB @ ''"errors"\<newline>'',
     TAB @ ''"testing"\<newline>'',
     ''\<newline>'',
     TAB @ ''"github.com/stretchr/testify/require"\<newline>'',
     '')\<newline>'',
     ''\<newline>'',
     ''func TestRead(t *testing.T) {\<newline>'',
     TAB @ ''testCases := []struct {\<newline>'',
     TAB @ TAB @ ''name                   string\<newline>'',
     TAB @ TAB @ ''mockedGodotenvLoad     func(filenames ...string) (err error)\<newline>'',
     TAB @ TAB @ ''mockedEnvconfigProcess func(prefix string, spec interface{}) error\<newline>'',
     TAB @ TAB @ ''expectedError          error\<newline>'',
     TAB @ ''}{\<newline>'',
     TAB @ TAB @ ''{\<newline>'',
     TAB @ TAB @ TAB @ ''name: "happy path",\<newline>'',
     TAB @ TAB @ TAB @ ''mockedGodotenvLoad: func(filenames ...string) (err error) {\<newline>'',
     TAB @ TAB @ TAB @ TAB @ ''return nil\<newline>'',
     TAB @ TAB @ TAB @ ''},\<newline>'',
     TAB @ TAB @ TAB @ ''mockedEnvconfigProcess: func(prefix string, spec interface{}) error {\<newline>'',
     TAB @ TAB @ TAB @ TAB @ ''return nil\<newline>'',
     TAB @ TAB @ TAB @ ''},\<newline>'',
     TAB @ TAB @ ''},\<newline>'',
     TAB @ TAB @ ''{\<newline>'',
     TAB @ TAB @ TAB @ ''name: "error loading env vars",\<newline>'',
     TAB @ TAB @ TAB @ ''mockedGodotenvLoad: func(filenames ...string) (err error) {\<newline>'',
     TAB @ TAB @ TAB @ TAB @ ''return errors.New("random error")\<newline>'',
     TAB @ TAB @ TAB @ ''},\<newline>'',
     TAB @ TAB @ TAB @ ''expectedError: errors.New("loading env vars from .env file: random error"),\<newline>'',
     TAB @ TAB @ ''},\<newline>'',
     TAB @ TAB @ ''{\<newline>'',
     TAB @ TAB @ TAB @ ''name: "error processing env vars",\<newline>'',
     TAB @ TAB @ TAB @ ''mockedGodotenvLoad: func(filenames ...string) (err error) {\<newline>'',
     TAB @ TAB @ TAB @ TAB @ ''return nil\<newline>'',
     TAB @ TAB @ TAB @ ''},\<newline>'',
     TAB @ TAB @ TAB @ ''mockedEnvconfigProcess: func(prefix string, spec interface{}) error {\<newline>'',
     TAB @ TAB @ TAB @ TAB @ ''return errors.New("random error")\<newline>'',
     TAB @ TAB @ TAB @ ''},\<newline>'',
     TAB @ TAB @ TAB @ ''expectedError: errors.New("processing env vars: random error"),\<newline>'',
     TAB @ TAB @ ''},\<newline>'',
     TAB @ ''}\<newline>'',
     TAB @ ''for _, tc := range testCases {\<newline>'',
     TAB @ TAB @ ''t.Run(tc.name, func(t *testing.T) {\<newline>'',
     TAB @ TAB @ TAB @ ''godotenvLoad = tc.mockedGodotenvLoad\<newline>'',
     TAB @ TAB @ TAB @ ''envconfigProcess = tc.mockedEnvconfigProcess\<newline>'',
     TAB @ TAB @ TAB @ ''config, err := Read()\<newline>'',
     TAB @ TAB @ TAB @ ''if err != nil {\<newline>'',
     TAB @ TAB @ TAB @ TAB @ ''if tc.expectedError == nil {\<newline>'',
     TAB @ TAB @ TAB @ TAB @ TAB @ ''t.Fatalf("expected no error, got %v", err)\<newline>'',
     TAB @ TAB @ TAB @ TAB @ ''}\<newline>'',
     TAB @ TAB @ TAB @ TAB @ ''require.Nil(t, config)\<newline>'',
     TAB @ TAB @ TAB @ TAB @ ''require.Equal(t, tc.expectedError.Error(), err.Error())\<newline>'',
     TAB @ TAB @ TAB @ ''} else {\<newline>'',
     TAB @ TAB @ TAB @ TAB @ ''if tc.expectedError != nil {\<newline>'',
     TAB @ TAB @ TAB @ TAB @ TAB @ ''t.Fatalf("expected error, got nil")\<newline>'',
     TAB @ TAB @ TAB @ TAB @ ''}\<newline>'',
     TAB @ TAB @ TAB @ TAB @ ''require.NotNil(t, config)\<newline>'',
     TAB @ TAB @ TAB @ ''}\<newline>'',
     TAB @ TAB @ ''})\<newline>'',
     TAB @ ''}\<newline>'',
     ''}\<newline>'',
     ''\<newline>'',
     ''func TestReadFromEnvFile(t *testing.T) {\<newline>'',
     TAB @ ''testCases := []struct {\<newline>'',
     TAB @ TAB @ ''name                   string\<newline>'',
     TAB @ TAB @ ''mockedGodotenvLoad     func(filenames ...string) (err error)\<newline>'',
     TAB @ TAB @ ''mockedEnvconfigProcess func(prefix string, spec interface{}) error\<newline>'',
     TAB @ TAB @ ''expectedError          error\<newline>'',
     TAB @ ''}{\<newline>'',
     TAB @ TAB @ ''{\<newline>'',
     TAB @ TAB @ TAB @ ''name: "happy path",\<newline>'',
     TAB @ TAB @ TAB @ ''mockedGodotenvLoad: func(filenames ...string) (err error) {\<newline>'',
     TAB @ TAB @ TAB @ TAB @ ''return nil\<newline>'',
     TAB @ TAB @ TAB @ ''},\<newline>'',
     TAB @ TAB @ TAB @ ''mockedEnvconfigProcess: func(prefix string, spec interface{}) error {\<newline>'',
     TAB @ TAB @ TAB @ TAB @ ''return nil\<newline>'',
     TAB @ TAB @ TAB @ ''},\<newline>'',
     TAB @ TAB @ ''},\<newline>'',
     TAB @ TAB @ ''{\<newline>'',
     TAB @ TAB @ TAB @ ''name: "error loading env vars",\<newline>'',
     TAB @ TAB @ TAB @ ''mockedGodotenvLoad: func(filenames ...string) (err error) {\<newline>'',
     TAB @ TAB @ TAB @ TAB @ ''return errors.New("random error")\<newline>'',
     TAB @ TAB @ TAB @ ''},\<newline>'',
     TAB @ TAB @ TAB @ ''expectedError: errors.New("loading env vars from path/to/.env: random error"),\<newline>'',
     TAB @ TAB @ ''},\<newline>'',
     TAB @ TAB @ ''{\<newline>'',
     TAB @ TAB @ TAB @ ''name: "error processing env vars",\<newline>'',
     TAB @ TAB @ TAB @ ''mockedGodotenvLoad: func(filenames ...string) (err error) {\<newline>'',
     TAB @ TAB @ TAB @ TAB @ ''return nil\<newline>'',
     TAB @ TAB @ TAB @ ''},\<newline>'',
     TAB @ TAB @ TAB @ ''mockedEnvconfigProcess: func(prefix string, spec interface{}) error {\<newline>'',
     TAB @ TAB @ TAB @ TAB @ ''return errors.New("random error")\<newline>'',
     TAB @ TAB @ TAB @ ''},\<newline>'',
     TAB @ TAB @ TAB @ ''expectedError: errors.New("processing env vars: random error"),\<newline>'',
     TAB @ TAB @ ''},\<newline>'',
     TAB @ ''}\<newline>'',
     TAB @ ''for _, tc := range testCases {\<newline>'',
     TAB @ TAB @ ''t.Run(tc.name, func(t *testing.T) {\<newline>'',
     TAB @ TAB @ TAB @ ''godotenvLoad = tc.mockedGodotenvLoad\<newline>'',
     TAB @ TAB @ TAB @ ''envconfigProcess = tc.mockedEnvconfigProcess\<newline>'',
     TAB @ TAB @ TAB @ ''config, err := ReadFromEnvFile("path/to/.env")\<newline>'',
     TAB @ TAB @ TAB @ ''if err != nil {\<newline>'',
     TAB @ TAB @ TAB @ TAB @ ''if tc.expectedError == nil {\<newline>'',
     TAB @ TAB @ TAB @ TAB @ TAB @ ''t.Fatalf("expected no error, got %v", err)\<newline>'',
     TAB @ TAB @ TAB @ TAB @ ''}\<newline>'',
     TAB @ TAB @ TAB @ TAB @ ''require.Nil(t, config)\<newline>'',
     TAB @ TAB @ TAB @ TAB @ ''require.Equal(t, tc.expectedError.Error(), err.Error())\<newline>'',
     TAB @ TAB @ TAB @ ''} else {\<newline>'',
     TAB @ TAB @ TAB @ TAB @ ''if tc.expectedError != nil {\<newline>'',
     TAB @ TAB @ TAB @ TAB @ TAB @ ''t.Fatalf("expected error, got nil")\<newline>'',
     TAB @ TAB @ TAB @ TAB @ ''}\<newline>'',
     TAB @ TAB @ TAB @ TAB @ ''require.NotNil(t, config)\<newline>'',
     TAB @ TAB @ TAB @ ''}\<newline>'',
     TAB @ TAB @ ''})\<newline>'',
     TAB @ ''}\<newline>'',
     ''}\<newline>'']\<close>

subsection \<open>The line source (linereader.go)\<close>

text \<open>
  The \<open>lineReader\<close> that \<open>lr\<close> makes is a \<open>bufio.Scanner\<close>: a finite sequence of
  lines, read once, and the fault, if any, that ended it. \<open>Scan\<close> moves to the next
  line, \<open>Text\<close> is the line \<open>Scan\<close> moved to, \<open>Err\<close> is the fault.
\<close>

record lineReader =
  pending :: "string list"
  token :: string
  fault :: "error option"

definition lineReader_Scan :: "lineReader \<Rightarrow> bool \<times> lineReader" where
  "lineReader_Scan r =
     (case pending r of
        [] \<Rightarrow> (False, r\<lparr>token := []\<rparr>)
      | l # ls \<Rightarrow> (True, r\<lparr>pending := ls, token := l\<rparr>))"

definition lineReader_Text :: "lineReader \<Rightarrow> string" where
  "lineReader_Text r = token r"

definition lineReader_Err :: "lineReader \<Rightarrow> error option" where
  "lineReader_Err r = fault r"

definition NewScanner :: "string list \<Rightarrow> error option \<Rightarrow> lineReader" where
  "NewScanner ls e = \<lparr>pending = ls, token = [], fault = e\<rparr>"

subsection \<open>The struct-field synthesizer (cfg.go)\<close>

text \<open>
  \<open>fmt.Sprintf\<close> with the format of the field declaration:
  a tab, \<open>%s %s\<close>, the struct tag with \<open>%s\<close> for the key, and the TODO comment.
\<close>

definition fieldDeclaration :: "string \<Rightarrow> string \<Rightarrow> string \<Rightarrow> string" where
  \<open>fieldDeclaration goFieldName typ key =
     TAB @ goFieldName @ '' '' @ typ @ '' `envconfig:"'' @ key @
     ''" required:"true"` // TODO: set the correct data type.\<newline>''\<close>

definition structHeader :: string where
  \<open>structHeader =
     ''// Config holds all configuration needed by this app.\<newline>'' @
     ''type Config struct {\<newline>'' @
     ''// TODO: see https://github.com/kelseyhightower/envconfig for all available options\<newline> // for struct tags.\<newline>''\<close>

text \<open>The loop \<open>for lineReader.Scan() { ... }\<close>, with the builder \<open>sb\<close> as accumulator.\<close>

function scanLoop :: "lineReader \<Rightarrow> string \<Rightarrow> string \<times> lineReader" where
  "scanLoop r sb =
     (let (more, r1) = lineReader_Scan r in
      if more then
        (let line = lineReader_Text r1;
             parts = strings_SplitN line CHR ''='' 2
         in if length parts \<noteq> 2 then scanLoop r1 sb
            else (let key = parts ! 0;
                      goFieldName = toCamelCase key
                  in scanLoop r1 (sb @ fieldDeclaration goFieldName ''interface{}'' key)))
      else (sb, r1))"
  by pat_completeness auto
termination
  by (relation "measure (\<lambda>(r, sb). length (pending r))")
     (auto simp: lineReader_Scan_def split: list.splits)

definition generateStructFromEnvFile :: "lineReader \<Rightarrow> string \<times> error option" where
  "generateStructFromEnvFile lineReader =
     (let sb = structHeader;
          (sb, r) = scanLoop lineReader sb;
          sb = sb @ ''}\<newline>''
      in case lineReader_Err r of
           Some err \<Rightarrow> ([], Some (errors_Wrap err ''scanning''))
         | None \<Rightarrow> (sb, None))"

subsection \<open>The providers (fs.go, the template and formatter files)\<close>

text \<open>
  \<open>fsProvider\<close>, \<open>templateProcessorProvider\<close>, \<open>formatterProvider\<close> and \<open>lr\<close> are package
  variables of interface type. Every method takes the world \<open>'w\<close> and returns the new
  one; \<open>'f\<close> is the type of file handles, \<open>'t\<close> of parsed templates. The template data
  is a \<open>map[string]string\<close> or \<open>nil\<close>. \<open>lr\<close> makes the line reader over an open file: the
  lines it will give and its fault, and the world after they have been read.
\<close>

record ('w, 'f, 't) providers =
  fs_Mkdir :: "string \<Rightarrow> 'w \<Rightarrow> error option \<times> 'w"
  fs_Create :: "string \<Rightarrow> 'w \<Rightarrow> ('f \<times> error option) \<times> 'w"
  fs_Open :: "string \<Rightarrow> 'w \<Rightarrow> ('f \<times> error option) \<times> 'w"
  fs_ReadFile :: "string \<Rightarrow> 'w \<Rightarrow> (string \<times> error option) \<times> 'w"
  fs_WriteFile :: "string \<Rightarrow> string \<Rightarrow> nat \<Rightarrow> 'w \<Rightarrow> error option \<times> 'w"
  file_Close :: "'f \<Rightarrow> 'w \<Rightarrow> 'w"
  tp_Parse :: "string \<Rightarrow> string \<Rightarrow> 'w \<Rightarrow> ('t \<times> error option) \<times> 'w"
  te_Execute :: "'t \<Rightarrow> 'f \<Rightarrow> (string \<rightharpoonup> string) option \<Rightarrow> 'w \<Rightarrow> error option \<times> 'w"
  formatter_Source :: "string \<Rightarrow> 'w \<Rightarrow> (string \<times> error option) \<times> 'w"
  lr :: "'f \<Rightarrow> 'w \<Rightarrow> lineReader \<times> 'w"

subsection \<open>Formatting the generated file\<close>

text \<open>The permission \<open>0644\<close> is 420.\<close>

definition formatGoFile ::
  "('w, 'f, 't) providers \<Rightarrow> string \<Rightarrow> 'w \<Rightarrow> error option \<times> 'w" where
  "formatGoFile P filePath w =
     (let ((source, err), w1) = fs_ReadFile P filePath w in
      case err of
        Some e \<Rightarrow> (Some (errors_Wrap e (''reading go file '' @ filePath)), w1)
      | None \<Rightarrow>
         (let ((formattedSrc, err), w2) = formatter_Source P source w1 in
          case err of
            Some e \<Rightarrow> (Some (errors_Wrap e (''formating go file '' @ filePath)), w2)
          | None \<Rightarrow>
             (let (err, w3) = fs_WriteFile P filePath formattedSrc 420 w2 in
              case err of
                Some e \<Rightarrow> (Some (errors_Wrap e (''writing go file '' @ filePath)), w3)
              | None \<Rightarrow> (None, w3))))"

subsection \<open>The generator (cfg.go)\<close>

record generator =
  packageName :: string

definition NewGenerator :: "string \<Rightarrow> generator" where
  "NewGenerator name = \<lparr>packageName = name\<rparr>"

definition append_slice :: "'a list option \<Rightarrow> 'a \<Rightarrow> 'a list option" where
  "append_slice s x = (case s of None \<Rightarrow> Some [x] | Some xs \<Rightarrow> Some (xs @ [x]))"

definition writeFileFromTemplate ::
  "('w, 'f, 't) providers \<Rightarrow> string \<Rightarrow> string \<Rightarrow> (string \<rightharpoonup> string) option \<Rightarrow> 'f \<Rightarrow> 'w
     \<Rightarrow> error option \<times> 'w" where
  "writeFileFromTemplate P templateName templateText templateValues file w =
     (let ((tmplExecutor, err), w1) = tp_Parse P templateName templateText w in
      case err of
        Some e \<Rightarrow> (Some (errors_Wrap e (''parsing template '' @ templateName)), w1)
      | None \<Rightarrow>
         (let (err, w2) = te_Execute P tmplExecutor file templateValues w1 in
          case err of
            Some e \<Rightarrow> (Some (errors_Wrap e (''executing template '' @ templateName)), w2)
          | None \<Rightarrow> (None, w2)))"

text \<open>The deferred \<open>envFile.Close()\<close> runs on both returns after the file is open.\<close>

definition generateConfigStructFromEnvFile ::
  "('w, 'f, 't) providers \<Rightarrow> string \<Rightarrow> 'w \<Rightarrow> (string \<times> error option) \<times> 'w" where
  "generateConfigStructFromEnvFile P envFilePath w =
     (let ((envFile, err), w1) = fs_Open P envFilePath w in
      case err of
        Some e \<Rightarrow> (([], Some (errors_Wrap e (''opening env file '' @ envFilePath))), w1)
      | None \<Rightarrow>
         (let (lineReader, w2) = lr P envFile w1;
              (structFromEnvFile, err) = generateStructFromEnvFile lineReader;
              w3 = file_Close P envFile w2
          in case err of
               Some e \<Rightarrow>
                 (([], Some (errors_Wrap e (''generating struct from env file '' @ envFilePath))),
                  w3)
             | None \<Rightarrow> ((structFromEnvFile, None), w3)))"

text \<open>
  The body of \<open>generateConfigReaderMainFile\<close> after the file is created; the deferred
  \<open>configReaderFile.Close()\<close> is applied to whatever it returns.
\<close>

definition generateConfigReaderMainFile_body ::
  "('w, 'f, 't) providers \<Rightarrow> generator \<Rightarrow> string \<Rightarrow> string \<Rightarrow> 'f \<Rightarrow> 'w
     \<Rightarrow> (string \<times> error option) \<times> 'w" where
  "generateConfigReaderMainFile_body P g envFilePath configReaderFilePath configReaderFile w =
     (let templateValues =
            [configReaderPkgPlaceHolder \<mapsto> packageName g,
             configStructTemplateName \<mapsto> defaultConfigStructTemplate];
          ((structFromEnvFile, err), w1) =
            (if envFilePath \<noteq> [] then generateConfigStructFromEnvFile P envFilePath w
             else (([], None), w))
      in case err of
           Some e \<Rightarrow> (([], Some e), w1)
         | None \<Rightarrow>
            (let templateValues =
                   (if envFilePath \<noteq> []
                    then templateValues(configStructTemplateName \<mapsto> structFromEnvFile)
                    else templateValues);
                 (err, w2) =
                   writeFileFromTemplate P configReaderMainFileTemplateName
                     configReaderMainFileTemplatePlaceHolder (Some templateValues)
                     configReaderFile w1
             in case err of
                  Some e \<Rightarrow> (([], Some e), w2)
                | None \<Rightarrow>
                   (let (err, w3) = formatGoFile P configReaderFilePath w2 in
                    case err of
                      Some e \<Rightarrow> (([], Some e), w3)
                    | None \<Rightarrow> ((configReaderFilePath, None), w3))))"

definition generateConfigReaderMainFile ::
  "('w, 'f, 't) providers \<Rightarrow> generator \<Rightarrow> string \<Rightarrow> 'w \<Rightarrow> (string \<times> error option) \<times> 'w" where
  "generateConfigReaderMainFile P g envFilePath w =
     (let configReaderFilePath = packageName g @ ''/'' @ configReadFileName;
          ((configReaderFile, err), w1) = fs_Create P configReaderFilePath w
      in case err of
           Some e \<Rightarrow>
             (([], Some (errors_Wrap e (''creating file '' @ configReaderFilePath))), w1)
         | None \<Rightarrow>
            (let (res, w2) =
                   generateConfigReaderMainFile_body P g envFilePath configReaderFilePath
                     configReaderFile w1
             in (res, file_Close P configReaderFile w2)))"

definition generateConfigReaderUnitTestFile ::
  "('w, 'f, 't) providers \<Rightarrow> generator \<Rightarrow> 'w \<Rightarrow> (string \<times> error option) \<times> 'w" where
  "generateConfigReaderUnitTestFile P g w =
     (let configReaderUnitTestFilePath = packageName g @ ''/'' @ configReaderUnitTestFileName;
          ((configReaderUnitTestFile, err), w1) = fs_Create P configReaderUnitTestFilePath w
      in case err of
           Some e \<Rightarrow>
             (([], Some (errors_Wrap e (''creating file '' @ configReaderUnitTestFilePath))), w1)
         | None \<Rightarrow>
            (let (err, w2) =
                   writeFileFromTemplate P configReaderUnitTestFileTemplateName
                     configReaderUnitTestFileTemplate
                     (Some [configReaderPkgPlaceHolder \<mapsto> packageName g])
                     configReaderUnitTestFile w1;
                 w3 = file_Close P configReaderUnitTestFile w2
             in case err of
                  Some e \<Rightarrow> (([], Some e), w3)
                | None \<Rightarrow> ((configReaderUnitTestFilePath, None), w3)))"

definition generateEnvFile ::
  "('w, 'f, 't) providers \<Rightarrow> generator \<Rightarrow> 'w \<Rightarrow> error option \<times> 'w" where
  "generateEnvFile P g w =
     (let ((envFile, err), w1) = fs_Create P envFileName w in
      case err of
        Some e \<Rightarrow> (Some (errors_Wrap e (''creating file '' @ envFileName)), w1)
      | None \<Rightarrow>
         (let (err, w2) =
                writeFileFromTemplate P envFileTemplateName envFileTemplate None envFile w1;
              w3 = file_Close P envFile w2
          in case err of
               Some e \<Rightarrow> (Some e, w3)
             | None \<Rightarrow> (None, w3)))"

definition generateConfigReaderFilesFromEnvFile ::
  "('w, 'f, 't) providers \<Rightarrow> generator \<Rightarrow> string \<Rightarrow> 'w
     \<Rightarrow> (string list option \<times> error option) \<times> 'w" where
  "generateConfigReaderFilesFromEnvFile P g envFilePath w =
     (let generatedFiles = None;
          (err, w1) = fs_Mkdir P (packageName g) w
      in if err \<noteq> None \<and> \<not> os_IsExist (the err)
         then ((None, Some (errors_Wrap (the err) (''creating dir '' @ packageName g))), w1)
         else
          (let ((mainFilePath, err), w2) = generateConfigReaderMainFile P g envFilePath w1 in
           case err of
             Some e \<Rightarrow> ((None, Some e), w2)
           | None \<Rightarrow>
              (let generatedFiles = append_slice generatedFiles mainFilePath;
                   ((unitTestFilePath, err), w3) = generateConfigReaderUnitTestFile P g w2
               in case err of
                    Some e \<Rightarrow> ((None, Some e), w3)
                  | None \<Rightarrow>
                     (let generatedFiles = append_slice generatedFiles unitTestFilePath
                      in ((generatedFiles, None), w3)))))"

definition generateConfigReaderFiles ::
  "('w, 'f, 't) providers \<Rightarrow> generator \<Rightarrow> 'w
     \<Rightarrow> (string list option \<times> error option) \<times> 'w" where
  "generateConfigReaderFiles P g w =
     (let generatedFiles = None;
          (err, w1) = fs_Mkdir P (packageName g) w
      in if err \<noteq> None \<and> \<not> os_IsExist (the err)
         then ((None, Some (errors_Wrap (the err) (''creating dir '' @ packageName g))), w1)
         else
          (let ((mainFilePath, err), w2) = generateConfigReaderMainFile P g [] w1 in
           case err of
             Some e \<Rightarrow> ((None, Some e), w2)
           | None \<Rightarrow>
              (let generatedFiles = append_slice generatedFiles mainFilePath;
                   ((unitTestFilePath, err), w3) = generateConfigReaderUnitTestFile P g w2
               in case err of
                    Some e \<Rightarrow> ((None, Some e), w3)
                  | None \<Rightarrow>
                     (let generatedFiles = append_slice generatedFiles unitTestFilePath;
                          (err, w4) = generateEnvFile P g w3
                      in case err of
                           Some e \<Rightarrow> ((None, Some e), w4)
                         | None \<Rightarrow>
                            (let generatedFiles = append_slice generatedFiles envFileName
                             in ((generatedFiles, None), w4))))))"

definition GenerateConfigPackage ::
  "('w, 'f, 't) providers \<Rightarrow> generator \<Rightarrow> 'w
     \<Rightarrow> (string list option \<times> error option) \<times> 'w" where
  "GenerateConfigPackage P g w =
     (let ((generatedFiles, err), w1) = generateConfigReaderFiles P g w in
      case err of
        Some e \<Rightarrow> ((None, Some e), w1)
      | None \<Rightarrow> ((generatedFiles, None), w1))"

definition GenerateConfigPackageFromEnvFile ::
  "('w, 'f, 't) providers \<Rightarrow> generator \<Rightarrow> string \<Rightarrow> 'w
     \<Rightarrow> (string list option \<times> error option) \<times> 'w" where
  "GenerateConfigPackageFromEnvFile P g envFilePath w =
     (let ((generatedFiles, err), w1) = generateConfigReaderFilesFromEnvFile P g envFilePath w in
      case err of
        Some e \<Rightarrow> ((None, Some e), w1)
      | None \<Rightarrow> ((generatedFiles, None), w1))"

subsection \<open>The spec's wording of the field block\<close>

text \<open>
  A line is valid when splitting it at the first \<open>=\<close> gives two parts; its source key
  is the part on the left. The block is the header, one field declaration per valid
  line, and the closing brace.
\<close>

definition validLine_spec :: "string \<Rightarrow> bool" where
  "validLine_spec line = (CHR ''='' \<in> set line)"

definition sourceKey_spec :: "string \<Rightarrow> string" where
  "sourceKey_spec line = takeWhile (\<lambda>c. c \<noteq> CHR ''='') line"

definition fieldLine_spec :: "string \<Rightarrow> string" where
  "fieldLine_spec key = fieldDeclaration (toCamelCase key) ''interface{}'' key"

definition fieldBlock_spec :: "string list \<Rightarrow> string" where
  "fieldBlock_spec lines =
     structHeader @
     concat (map (\<lambda>line. fieldLine_spec (sourceKey_spec line)) (filter validLine_spec lines)) @
     ''}\<newline>''"

subsection \<open>A recording implementation of the providers\<close>

text \<open>
  Test doubles in the manner of the package's mocks: every call is appended to a log,
  which is the world; a file handle is the file's name; the errors to return are
  parameters.
\<close>

definition recordingProviders ::
  "error option \<Rightarrow> error option \<Rightarrow> (string \<Rightarrow> error option) \<Rightarrow> lineReader
     \<Rightarrow> (string list, string, string) providers" where
  "recordingProviders mkDirErr openErr createErr reader =
     \<lparr>fs_Mkdir = (\<lambda>dirName w. (mkDirErr, w @ [''Mkdir '' @ dirName])),
      fs_Create = (\<lambda>name w. ((name, createErr name), w @ [''Create '' @ name])),
      fs_Open = (\<lambda>name w. ((name, openErr), w @ [''Open '' @ name])),
      fs_ReadFile = (\<lambda>name w. (([], None), w @ [''ReadFile '' @ name])),
      fs_WriteFile = (\<lambda>name data perm w. (None, w @ [''WriteFile '' @ name])),
      file_Close = (\<lambda>f w. w @ [''Close '' @ f]),
      tp_Parse = (\<lambda>name text w. ((name, None), w @ [''Parse '' @ name])),
      te_Execute = (\<lambda>t f data w. (None, w @ [''Execute '' @ t])),
      formatter_Source = (\<lambda>src w. ((src, None), w @ [''Source''])),
      lr = (\<lambda>f w. (reader, w @ [''lr '' @ f]))\<rparr>"

section \<open>Properties of the string functions\<close>

declare tokens_spec.simps [simp del]
declare toCamelCase_loop.simps [simp del]
declare scanLoop.simps [simp del]

lemma toCamelCase_loop_eq:
  "toCamelCase_loop i parts =
     take i parts @ map (\<lambda>t. cases_Title (strings_ToLower t)) (drop i parts)"
proof (induction i parts rule: toCamelCase_loop.induct)
  case (1 i parts)
  show ?case
  proof (cases "i < length parts")
    case True
    let ?f = "\<lambda>t. cases_Title (strings_ToLower t)"
    let ?parts' = "parts[i := ?f (parts ! i)]"
    have "toCamelCase_loop i parts = toCamelCase_loop (Suc i) ?parts'"
      using True by (subst toCamelCase_loop.simps) simp
    also have "\<dots> = take (Suc i) ?parts' @ map ?f (drop (Suc i) ?parts')"
      using 1 True by simp
    also have "take (Suc i) ?parts' = take i parts @ [?f (parts ! i)]"
      using True by (simp add: take_Suc_conv_app_nth)
    also have "drop (Suc i) ?parts' = drop (Suc i) parts"
      by simp
    finally show ?thesis
      using True by (simp add: Cons_nth_drop_Suc [symmetric])
  next
    case False
    then show ?thesis by (subst toCamelCase_loop.simps) simp
  qed
qed

lemma map_append_Nil: "map (\<lambda>x. [] @ x) es = es"
  by (induction es) simp_all

lemma strings_Join_empty_sep: "strings_Join elems [] = concat elems"
  by (cases elems) (simp_all add: strings_Join_def map_append_Nil)

lemma strings_IndexByte_None: "(strings_IndexByte s c = None) = (c \<notin> set s)"
  by (induction s) auto

lemma strings_IndexByte_Some:
  "strings_IndexByte s c = Some m \<Longrightarrow>
     m < length s \<and> s ! m = c \<and> c \<notin> set (take m s)"
proof (induction s arbitrary: m)
  case Nil
  then show ?case by simp
next
  case (Cons x xs)
  show ?case
  proof (cases "x = c")
    case True
    with Cons.prems show ?thesis by simp
  next
    case False
    with Cons.prems obtain k where k: "strings_IndexByte xs c = Some k" and m: "m = Suc k"
      by auto
    from Cons.IH [OF k] False show ?thesis
      by (simp add: m)
  qed
qed

lemma strings_IndexByte_cut:
  assumes "strings_IndexByte s c = Some m"
  shows "take m s @ c # drop (Suc m) s = s"
proof -
  from strings_IndexByte_Some [OF assms] have m: "m < length s" and c: "s ! m = c"
    by simp_all
  have "s = take m s @ s ! m # drop (Suc m) s"
    using m by (rule id_take_nth_drop)
  then show ?thesis
    by (simp only: c)
qed

lemma strings_Count_append:
  "strings_Count (xs @ ys) c = strings_Count xs c + strings_Count ys c"
  by (simp add: strings_Count_def)

lemma strings_Count_notin: "c \<notin> set xs \<Longrightarrow> strings_Count xs c = 0"
  by (induction xs) (auto simp: strings_Count_def)

lemma strings_Count_Cons: "strings_Count (c # xs) c = Suc (strings_Count xs c)"
  by (simp add: strings_Count_def)

lemma strings_Count_0: "strings_Count s c = 0 \<Longrightarrow> c \<notin> set s"
proof (induction s)
  case Nil
  then show ?case by simp
next
  case (Cons x xs)
  from Cons.prems have "x \<noteq> c"
    by (auto simp: strings_Count_def split: if_splits)
  moreover from Cons.prems have "strings_Count xs c = 0"
    by (auto simp: strings_Count_def split: if_splits)
  ultimately show ?case using Cons.IH by simp
qed

lemma tokens_spec_no_sep: "CHR ''_'' \<notin> set s \<Longrightarrow> tokens_spec s = [s]"
proof -
  assume "CHR ''_'' \<notin> set s"
  then have "dropWhile (\<lambda>c. c \<noteq> CHR ''_'') s = []"
    by (simp only: dropWhile_eq_Nil_conv) blast
  then show ?thesis
    by (subst tokens_spec.simps) (simp only: list.case)
qed

lemma tokens_spec_sep:
  assumes "CHR ''_'' \<notin> set a"
  shows "tokens_spec (a @ CHR ''_'' # b) = a # tokens_spec b"
proof -
  from assms have p: "\<And>x. x \<in> set a \<Longrightarrow> x \<noteq> CHR ''_''" by blast
  have d: "dropWhile (\<lambda>c. c \<noteq> CHR ''_'') (a @ CHR ''_'' # b) = CHR ''_'' # b"
    using p by (simp add: dropWhile_append2)
  have t: "takeWhile (\<lambda>c. c \<noteq> CHR ''_'') (a @ CHR ''_'' # b) = a"
    using p by (simp add: takeWhile_append2)
  show ?thesis
    by (subst tokens_spec.simps) (simp only: d t list.case)
qed

lemma genSplit_loop_tokens:
  "strings_Count s CHR ''_'' \<le> k \<Longrightarrow> genSplit_loop s CHR ''_'' k = tokens_spec s"
proof (induction k arbitrary: s)
  case 0
  then have "CHR ''_'' \<notin> set s"
    by (simp add: strings_Count_0)
  then show ?case by (simp add: tokens_spec_no_sep)
next
  case (Suc k)
  show ?case
  proof (cases "strings_IndexByte s CHR ''_''")
    case None
    then have "CHR ''_'' \<notin> set s" by (simp add: strings_IndexByte_None)
    with None show ?thesis by (simp add: tokens_spec_no_sep)
  next
    case (Some m)
    define a where "a = take m s"
    define b where "b = drop (Suc m) s"
    have s: "a @ CHR ''_'' # b = s"
      unfolding a_def b_def by (rule strings_IndexByte_cut [OF Some])
    have a: "CHR ''_'' \<notin> set a"
      unfolding a_def using strings_IndexByte_Some [OF Some] by simp
    have "strings_Count (a @ CHR ''_'' # b) CHR ''_'' = Suc (strings_Count b CHR ''_'')"
      by (simp add: strings_Count_append strings_Count_notin [OF a] strings_Count_Cons)
    with Suc.prems have "strings_Count b CHR ''_'' \<le> k"
      by (simp only: s)
    then have ih: "genSplit_loop b CHR ''_'' k = tokens_spec b"
      by (rule Suc.IH)
    have "genSplit_loop s CHR ''_'' (Suc k) = a # genSplit_loop b CHR ''_'' k"
      by (simp add: Some a_def b_def)
    also have "\<dots> = tokens_spec (a @ CHR ''_'' # b)"
      by (simp only: ih tokens_spec_sep [OF a])
    finally show ?thesis by (simp only: s)
  qed
qed

lemma strings_Split_tokens: "strings_Split s CHR ''_'' = tokens_spec s"
proof -
  have "strings_Count s CHR ''_'' \<le> length s"
    by (simp add: strings_Count_def)
  then show ?thesis
    by (simp add: strings_Split_def genSplit_def genSplit_loop_tokens)
qed

lemma toCamelCase_concat:
  "toCamelCase s = concat (map (\<lambda>t. cases_Title (strings_ToLower t)) (tokens_spec s))"
  by (simp add: toCamelCase_def toCamelCase_loop_eq strings_Join_empty_sep strings_Split_tokens)









lemma cases_Title_Nil: "(cases_Title t = []) = (t = [])"
  by (cases t) (simp_all add: cases_Title_def Let_def)

lemma all_sep_iff:
  assumes "\<forall>c \<in> set a. c \<noteq> u"
  shows "(\<forall>c \<in> set (a @ u # rest). c = u) = (a = [] \<and> (\<forall>c \<in> set rest. c = u))"
  using assms by (cases a) auto

lemma tokens_spec_all_empty:
  "(\<forall>t \<in> set (tokens_spec s). t = []) = (\<forall>c \<in> set s. c = CHR ''_'')"
proof (induction s rule: tokens_spec.induct)
  case (1 s)
  show ?case
  proof (cases "dropWhile (\<lambda>c. c \<noteq> CHR ''_'') s")
    case Nil
    then have n: "CHR ''_'' \<notin> set s"
      by (simp only: dropWhile_eq_Nil_conv) blast
    then show ?thesis
      by (cases s) (auto simp: tokens_spec_no_sep)
  next
    case (Cons x rest)
    have ts: "tokens_spec s = takeWhile (\<lambda>c. c \<noteq> CHR ''_'') s # tokens_spec rest"
      by (subst tokens_spec.simps) (simp only: Cons list.case)
    have "\<not> (hd (dropWhile (\<lambda>c. c \<noteq> CHR ''_'') s) \<noteq> CHR ''_'')"
      by (rule hd_dropWhile) (simp add: Cons)
    then have x: "x = CHR ''_''"
      by (simp add: Cons)
    have "takeWhile (\<lambda>c. c \<noteq> CHR ''_'') s @ dropWhile (\<lambda>c. c \<noteq> CHR ''_'') s = s"
      by (rule takeWhile_dropWhile_id)
    then have s: "takeWhile (\<lambda>c. c \<noteq> CHR ''_'') s @ CHR ''_'' # rest = s"
      by (simp only: Cons x)
    have "(\<forall>c \<in> set s. c = CHR ''_'') =
        (\<forall>c \<in> set (takeWhile (\<lambda>c. c \<noteq> CHR ''_'') s @ CHR ''_'' # rest). c = CHR ''_'')"
      by (simp only: s)
    also have "\<dots> = (takeWhile (\<lambda>c. c \<noteq> CHR ''_'') s = [] \<and> (\<forall>c \<in> set rest. c = CHR ''_''))"
      by (rule all_sep_iff) (auto dest: set_takeWhileD)
    also have "\<dots> = (\<forall>t \<in> set (tokens_spec s). t = [])"
      using "1.IH" [OF Cons] by (simp add: ts)
    finally show ?thesis by simp
  qed
qed

lemma toCamelCase_Nil: "(toCamelCase k = []) = (\<forall>c \<in> set k. c = CHR ''_'')"
proof -
  have "(toCamelCase k = []) = (\<forall>t \<in> set (tokens_spec k). t = [])"
    by (simp add: toCamelCase_concat cases_Title_Nil strings_ToLower_def)
  then show ?thesis by (simp only: tokens_spec_all_empty)
qed
























section \<open>Properties of the struct-field synthesizer\<close>

lemma strings_SplitN_eq:
  "strings_SplitN line CHR ''='' 2 =
     (if CHR ''='' \<in> set line
      then [takeWhile (\<lambda>c. c \<noteq> CHR ''='') line, tl (dropWhile (\<lambda>c. c \<noteq> CHR ''='') line)]
      else [line])"
proof (cases "strings_IndexByte line CHR ''=''")
  case None
  then have n: "CHR ''='' \<notin> set line"
    by (simp add: strings_IndexByte_None)
  show ?thesis
  proof (cases line)
    case Nil
    then show ?thesis
      by (simp add: strings_SplitN_def genSplit_def)
  next
    case (Cons x xs)
    with n None show ?thesis
      by (simp add: strings_SplitN_def genSplit_def)
  qed
next
  case (Some m)
  define a where "a = take m line"
  define b where "b = drop (Suc m) line"
  have s: "a @ CHR ''='' # b = line"
    unfolding a_def b_def by (rule strings_IndexByte_cut [OF Some])
  have a: "CHR ''='' \<notin> set a"
    unfolding a_def using strings_IndexByte_Some [OF Some] by simp
  then have p: "\<And>x. x \<in> set a \<Longrightarrow> x \<noteq> CHR ''=''" by blast
  have t: "takeWhile (\<lambda>c. c \<noteq> CHR ''='') (a @ CHR ''='' # b) = a"
    using p by (simp add: takeWhile_append2)
  have d: "dropWhile (\<lambda>c. c \<noteq> CHR ''='') (a @ CHR ''='' # b) = CHR ''='' # b"
    using p by (simp add: dropWhile_append2)
  have m: "CHR ''='' \<in> set (a @ CHR ''='' # b)" by simp
  have l: "min 2 (length (a @ CHR ''='' # b) + 1) - 1 = Suc 0" by simp
  have ne: "line \<noteq> []"
    using strings_IndexByte_Some [OF Some] by auto
  have "strings_SplitN line CHR ''='' 2 = [a, b]"
    using Some ne
    by (simp add: strings_SplitN_def genSplit_def a_def b_def)
  also have "\<dots> = (if CHR ''='' \<in> set (a @ CHR ''='' # b)
      then [takeWhile (\<lambda>c. c \<noteq> CHR ''='') (a @ CHR ''='' # b),
            tl (dropWhile (\<lambda>c. c \<noteq> CHR ''='') (a @ CHR ''='' # b))]
      else [a @ CHR ''='' # b])"
    by (simp only: t d m if_True list.sel)
  finally show ?thesis by (simp only: s)
qed

lemma strings_SplitN_length:
  "(length (strings_SplitN line CHR ''='' 2) \<noteq> 2) = (\<not> validLine_spec line)"
  by (simp add: strings_SplitN_eq validLine_spec_def)

lemma strings_SplitN_key:
  "validLine_spec line \<Longrightarrow> strings_SplitN line CHR ''='' 2 ! 0 = sourceKey_spec line"
  by (simp add: strings_SplitN_eq validLine_spec_def sourceKey_spec_def)

lemma scanLoop_Nil:
  "pending r = [] \<Longrightarrow> scanLoop r sb = (sb, r\<lparr>token := []\<rparr>)"
  by (subst scanLoop.simps) (simp add: lineReader_Scan_def)

lemma scanLoop_Cons:
  "pending r = l # ls \<Longrightarrow>
     scanLoop r sb =
       scanLoop (r\<lparr>pending := ls, token := l\<rparr>)
         (if validLine_spec l then sb @ fieldLine_spec (sourceKey_spec l) else sb)"
  by (subst scanLoop.simps)
     (simp add: lineReader_Scan_def lineReader_Text_def strings_SplitN_length
        strings_SplitN_key fieldLine_spec_def Let_def)

lemma scanLoop_eq:
  "scanLoop r sb =
     (sb @ concat (map (\<lambda>line. fieldLine_spec (sourceKey_spec line))
                     (filter validLine_spec (pending r))),
      r\<lparr>pending := [], token := []\<rparr>)"
proof (induction "pending r" arbitrary: r sb)
  case Nil
  then show ?case
    by (simp add: scanLoop_Nil [OF Nil [symmetric]])
next
  case (Cons l ls)
  have "scanLoop r sb =
      scanLoop (r\<lparr>pending := ls, token := l\<rparr>)
        (if validLine_spec l then sb @ fieldLine_spec (sourceKey_spec l) else sb)"
    by (rule scanLoop_Cons [OF Cons(2) [symmetric]])
  also have "\<dots> =
      ((if validLine_spec l then sb @ fieldLine_spec (sourceKey_spec l) else sb) @
         concat (map (\<lambda>line. fieldLine_spec (sourceKey_spec line)) (filter validLine_spec ls)),
       r\<lparr>pending := [], token := []\<rparr>)"
    using Cons(1) [of "r\<lparr>pending := ls, token := l\<rparr>"] by simp
  finally show ?case
    by (simp add: Cons(2) [symmetric])
qed

lemma generateStructFromEnvFile_eq:
  "generateStructFromEnvFile r =
     (case fault r of
        Some err \<Rightarrow> ([], Some (Wrapped err ''scanning''))
      | None \<Rightarrow> (fieldBlock_spec (pending r), None))"
  by (simp add: generateStructFromEnvFile_def scanLoop_eq lineReader_Err_def errors_Wrap_def
      fieldBlock_spec_def split: option.splits)

lemma fieldBlock_spec_valid_line:
  assumes "validLine_spec line"
  shows "fieldBlock_spec (before @ line # after) \<noteq> fieldBlock_spec (before @ after)"
proof -
  have "length (fieldBlock_spec (before @ line # after)) =
      length (fieldBlock_spec (before @ after)) +
      length (fieldLine_spec (sourceKey_spec line))"
    using assms by (simp add: fieldBlock_spec_def)
  moreover have "0 < length (fieldLine_spec (sourceKey_spec line))"
    by (simp add: fieldLine_spec_def fieldDeclaration_def TAB_def)
  ultimately have "length (fieldBlock_spec (before @ line # after)) \<noteq>
      length (fieldBlock_spec (before @ after))"
    by arith
  then show ?thesis by auto
qed

section \<open>Properties of the generator\<close>

lemma generateConfigReaderMainFile_path:
  assumes "generateConfigReaderMainFile P g envFilePath w = ((p, None), w')"
  shows "p = packageName g @ ''/'' @ configReadFileName"
  using assms
  by (auto simp: generateConfigReaderMainFile_def generateConfigReaderMainFile_body_def Let_def
      split: prod.splits option.splits if_splits)

lemma generateConfigReaderUnitTestFile_path:
  assumes "generateConfigReaderUnitTestFile P g w = ((p, None), w')"
  shows "p = packageName g @ ''/'' @ configReaderUnitTestFileName"
  using assms
  by (auto simp: generateConfigReaderUnitTestFile_def Let_def
      split: prod.splits option.splits if_splits)

lemma generateConfigReaderFiles_paths:
  assumes "generateConfigReaderFiles P g w = ((fs, None), w')"
  shows "fs = Some [packageName g @ ''/'' @ configReadFileName,
                    packageName g @ ''/'' @ configReaderUnitTestFileName, envFileName]"
  using assms
  by (auto simp: generateConfigReaderFiles_def Let_def append_slice_def
      split: prod.splits option.splits if_splits
      dest!: generateConfigReaderMainFile_path generateConfigReaderUnitTestFile_path)

lemma generateConfigReaderFilesFromEnvFile_paths:
  assumes "generateConfigReaderFilesFromEnvFile P g envFilePath w = ((fs, None), w')"
  shows "fs = Some [packageName g @ ''/'' @ configReadFileName,
                    packageName g @ ''/'' @ configReaderUnitTestFileName]"
  using assms
  by (auto simp: generateConfigReaderFilesFromEnvFile_def Let_def append_slice_def
      split: prod.splits option.splits if_splits
      dest!: generateConfigReaderMainFile_path generateConfigReaderUnitTestFile_path)

lemma generateConfigReaderFiles_nil:
  assumes "generateConfigReaderFiles P g w = ((fs, Some e), w')"
  shows "fs = None"
  using assms
  by (auto simp: generateConfigReaderFiles_def Let_def
      split: prod.splits option.splits if_splits)

lemma generateConfigReaderFilesFromEnvFile_nil:
  assumes "generateConfigReaderFilesFromEnvFile P g envFilePath w = ((fs, Some e), w')"
  shows "fs = None"
  using assms
  by (auto simp: generateConfigReaderFilesFromEnvFile_def Let_def
      split: prod.splits option.splits if_splits)

lemma writeFileFromTemplate_Mkdir:
  "writeFileFromTemplate (P\<lparr>fs_Mkdir := m\<rparr>) n t v f w = writeFileFromTemplate P n t v f w"
  by (simp add: writeFileFromTemplate_def Let_def
      split: prod.splits option.splits)

lemma formatGoFile_Mkdir:
  "formatGoFile (P\<lparr>fs_Mkdir := m\<rparr>) filePath w = formatGoFile P filePath w"
  by (simp add: formatGoFile_def Let_def
      split: prod.splits option.splits)

lemma generateConfigStructFromEnvFile_Mkdir:
  "generateConfigStructFromEnvFile (P\<lparr>fs_Mkdir := m\<rparr>) envFilePath w =
   generateConfigStructFromEnvFile P envFilePath w"
  by (simp add: generateConfigStructFromEnvFile_def Let_def
      split: prod.splits option.splits)

lemma generateConfigReaderMainFile_body_Mkdir:
  "generateConfigReaderMainFile_body (P\<lparr>fs_Mkdir := m\<rparr>) g envFilePath path f w =
   generateConfigReaderMainFile_body P g envFilePath path f w"
  by (simp add: generateConfigReaderMainFile_body_def writeFileFromTemplate_Mkdir
      formatGoFile_Mkdir generateConfigStructFromEnvFile_Mkdir Let_def
      split: prod.splits option.splits)

lemma generateConfigReaderMainFile_Mkdir:
  "generateConfigReaderMainFile (P\<lparr>fs_Mkdir := m\<rparr>) g envFilePath w =
   generateConfigReaderMainFile P g envFilePath w"
  by (simp add: generateConfigReaderMainFile_def generateConfigReaderMainFile_body_Mkdir Let_def
      split: prod.splits option.splits)

lemma generateConfigReaderUnitTestFile_Mkdir:
  "generateConfigReaderUnitTestFile (P\<lparr>fs_Mkdir := m\<rparr>) g w =
   generateConfigReaderUnitTestFile P g w"
  by (simp add: generateConfigReaderUnitTestFile_def writeFileFromTemplate_Mkdir Let_def
      split: prod.splits option.splits)

lemma generateEnvFile_Mkdir:
  "generateEnvFile (P\<lparr>fs_Mkdir := m\<rparr>) g w = generateEnvFile P g w"
  by (simp add: generateEnvFile_def writeFileFromTemplate_Mkdir Let_def
      split: prod.splits option.splits)

lemma generateConfigReaderFiles_Mkdir_fails:
  assumes "fs_Mkdir P (packageName g) w = (Some e, w1)" and "\<not> os_IsExist e"
  shows "generateConfigReaderFiles P g w =
     ((None, Some (Wrapped e (''creating dir '' @ packageName g))), w1)"
  using assms by (simp add: generateConfigReaderFiles_def errors_Wrap_def)

lemma generateConfigReaderFilesFromEnvFile_Mkdir_fails:
  assumes "fs_Mkdir P (packageName g) w = (Some e, w1)" and "\<not> os_IsExist e"
  shows "generateConfigReaderFilesFromEnvFile P g envFilePath w =
     ((None, Some (Wrapped e (''creating dir '' @ packageName g))), w1)"
  using assms by (simp add: generateConfigReaderFilesFromEnvFile_def errors_Wrap_def)

lemma generateConfigReaderFiles_Mkdir_exists:
  assumes "fs_Mkdir P (packageName g) w = (Some e, w1)" and "os_IsExist e"
  shows "generateConfigReaderFiles P g w =
     generateConfigReaderFiles (P\<lparr>fs_Mkdir := \<lambda>dirName s. (None, w1)\<rparr>) g w"
  using assms
  by (simp add: generateConfigReaderFiles_def generateConfigReaderMainFile_Mkdir
      generateConfigReaderUnitTestFile_Mkdir generateEnvFile_Mkdir Let_def
      split: prod.splits option.splits)

lemma generateConfigReaderFilesFromEnvFile_Mkdir_exists:
  assumes "fs_Mkdir P (packageName g) w = (Some e, w1)" and "os_IsExist e"
  shows "generateConfigReaderFilesFromEnvFile P g envFilePath w =
     generateConfigReaderFilesFromEnvFile (P\<lparr>fs_Mkdir := \<lambda>dirName s. (None, w1)\<rparr>) g
       envFilePath w"
  using assms
  by (simp add: generateConfigReaderFilesFromEnvFile_def generateConfigReaderMainFile_Mkdir
      generateConfigReaderUnitTestFile_Mkdir Let_def
      split: prod.splits option.splits)

lemma generateConfigStructFromEnvFile_Open_fails:
  assumes "fs_Open P envFilePath w = ((ef, Some e), w1)"
  shows "generateConfigStructFromEnvFile P envFilePath w =
     (([], Some (Wrapped e (''opening env file '' @ envFilePath))), w1)"
  using assms by (simp add: generateConfigStructFromEnvFile_def errors_Wrap_def)

lemma generateConfigReaderMainFile_Open_fails:
  assumes "envFilePath \<noteq> []"
    and "fs_Create P (packageName g @ ''/'' @ configReadFileName) w = ((f, None), w1)"
    and "fs_Open P envFilePath w1 = ((ef, Some e), w2)"
  shows "generateConfigReaderMainFile P g envFilePath w =
     (([], Some (Wrapped e (''opening env file '' @ envFilePath))), file_Close P f w2)"
  using assms
  by (simp add: generateConfigReaderMainFile_def generateConfigReaderMainFile_body_def
      generateConfigStructFromEnvFile_Open_fails)

lemma generateConfigReaderFilesFromEnvFile_Open_fails:
  assumes "envFilePath \<noteq> []"
    and "fs_Mkdir P (packageName g) w = (merr, w1)"
    and "\<not> (merr \<noteq> None \<and> \<not> os_IsExist (the merr))"
    and "fs_Create P (packageName g @ ''/'' @ configReadFileName) w1 = ((f, None), w2)"
    and "fs_Open P envFilePath w2 = ((ef, Some e), w3)"
  shows "generateConfigReaderFilesFromEnvFile P g envFilePath w =
     ((None, Some (Wrapped e (''opening env file '' @ envFilePath))), file_Close P f w3)"
  using assms(2,3) generateConfigReaderMainFile_Open_fails [OF assms(1,4,5)]
  by (cases merr) (auto simp: generateConfigReaderFilesFromEnvFile_def)

lemmas generator_defs =
  GenerateConfigPackage_def GenerateConfigPackageFromEnvFile_def
  generateConfigReaderFiles_def generateConfigReaderFilesFromEnvFile_def
  generateConfigReaderMainFile_def generateConfigReaderMainFile_body_def
  generateConfigReaderUnitTestFile_def generateEnvFile_def
  generateConfigStructFromEnvFile_def writeFileFromTemplate_def formatGoFile_def

lemmas run_defs =
  generator_defs recordingProviders_def NewGenerator_def NewScanner_def
  generateStructFromEnvFile_eq errors_Wrap_def append_slice_def
  configReadFileName_def configReaderUnitTestFileName_def envFileName_def
  configReaderMainFileTemplateName_def configReaderUnitTestFileTemplateName_def
  envFileTemplateName_def Let_def

section \<open>The claims\<close>

text \<open>
  C1. Whatever the package name, a default generation that returns no error returns
  exactly the three paths \<open>[<pkg>/config.go, <pkg>/config_test.go, .env]\<close> in this
  order, and a generation from an environment file that returns no error returns exactly
  the two paths \<open>[<pkg>/config.go, <pkg>/config_test.go]\<close>, without the sample
  environment file.
\<close>

theorem generated_paths:
  "(snd (fst (GenerateConfigPackage P g w)) = None \<longrightarrow>
      fst (fst (GenerateConfigPackage P g w)) =
        Some [packageName g @ ''/config.go'', packageName g @ ''/config_test.go'', ''.env'']) \<and>
   (snd (fst (GenerateConfigPackageFromEnvFile P g envFilePath w)) = None \<longrightarrow>
      fst (fst (GenerateConfigPackageFromEnvFile P g envFilePath w)) =
        Some [packageName g @ ''/config.go'', packageName g @ ''/config_test.go''])"
proof (intro conjI impI)
  assume a: "snd (fst (GenerateConfigPackage P g w)) = None"
  obtain fs err w' where r: "generateConfigReaderFiles P g w = ((fs, err), w')"
    by (metis surj_pair)
  with a have "err = None"
    by (simp add: GenerateConfigPackage_def split: option.splits)
  with r have r': "generateConfigReaderFiles P g w = ((fs, None), w')"
    by simp
  from r' generateConfigReaderFiles_paths [OF r']
  show "fst (fst (GenerateConfigPackage P g w)) =
      Some [packageName g @ ''/config.go'', packageName g @ ''/config_test.go'', ''.env'']"
    by (simp add: GenerateConfigPackage_def configReadFileName_def
        configReaderUnitTestFileName_def envFileName_def)
next
  assume a: "snd (fst (GenerateConfigPackageFromEnvFile P g envFilePath w)) = None"
  obtain fs err w' where
    r: "generateConfigReaderFilesFromEnvFile P g envFilePath w = ((fs, err), w')"
    by (metis surj_pair)
  with a have "err = None"
    by (simp add: GenerateConfigPackageFromEnvFile_def split: option.splits)
  with r have r': "generateConfigReaderFilesFromEnvFile P g envFilePath w = ((fs, None), w')"
    by simp
  from r' generateConfigReaderFilesFromEnvFile_paths [OF r']
  show "fst (fst (GenerateConfigPackageFromEnvFile P g envFilePath w)) =
      Some [packageName g @ ''/config.go'', packageName g @ ''/config_test.go'']"
    by (simp add: GenerateConfigPackageFromEnvFile_def configReadFileName_def
        configReaderUnitTestFileName_def)
qed

text \<open>
  The recording providers, with no failure, on package \<open>config\<close>: both operations
  return no error, and the paths are the ones the package's tests expect.
\<close>

theorem generated_paths_witness:
  "snd (fst (GenerateConfigPackage
       (recordingProviders None None (\<lambda>_. None) (NewScanner [''invalid'', ''var=value''] None))
       (NewGenerator ''config'') [])) = None \<and>
   fst (fst (GenerateConfigPackage
       (recordingProviders None None (\<lambda>_. None) (NewScanner [''invalid'', ''var=value''] None))
       (NewGenerator ''config'') [])) =
     Some [''config/config.go'', ''config/config_test.go'', ''.env''] \<and>
   snd (fst (GenerateConfigPackageFromEnvFile
       (recordingProviders None None (\<lambda>_. None) (NewScanner [''invalid'', ''var=value''] None))
       (NewGenerator ''config'') ''.env-local'' [])) = None \<and>
   fst (fst (GenerateConfigPackageFromEnvFile
       (recordingProviders None None (\<lambda>_. None) (NewScanner [''invalid'', ''var=value''] None))
       (NewGenerator ''config'') ''.env-local'' [])) =
     Some [''config/config.go'', ''config/config_test.go'']"
proof -
  let ?Q = "recordingProviders None None (\<lambda>_. None) (NewScanner [''invalid'', ''var=value''] None)"
  have h1: "snd (fst (GenerateConfigPackage ?Q (NewGenerator ''config'') [])) = None"
    by (simp add: run_defs)
  have h2: "snd (fst (GenerateConfigPackageFromEnvFile ?Q (NewGenerator ''config'')
      ''.env-local'' [])) = None"
    by (simp add: run_defs)
  from h1 h2
    generated_paths [of ?Q "NewGenerator ''config''" "[]" "''.env-local''"]
  show ?thesis
    by (simp add: NewGenerator_def)
qed





text \<open>
  C8. For every sequence of input lines read without a fault, the synthesizer's output
  is one text block: the fixed header comment (the comment on \<open>Config\<close>, the opening of
  the struct and the TODO on struct tags), then for each valid line (a line with an
  \<open>=\<close>), in order, one field declaration line (a tab, the name formatter's identifier
  for the key left of the first \<open>=\<close>, the placeholder type \<open>interface{}\<close>, the
  \<open>envconfig\<close> tag with the original key and \<open>required:"true"\<close>, and the TODO on the
  type), then the closing brace.
\<close>

theorem generateStructFromEnvFile_block:
  \<open>generateStructFromEnvFile (NewScanner lines None) =
     (''// Config holds all configuration needed by this app.\<newline>'' @
      ''type Config struct {\<newline>'' @
      ''// TODO: see https://github.com/kelseyhightower/envconfig for all available options\<newline>'' @
      '' // for struct tags.\<newline>'' @
      concat (map (\<lambda>line.
                [CHR 0x09] @ toCamelCase (takeWhile (\<lambda>c. c \<noteq> CHR ''='') line) @
                '' interface{} `envconfig:"'' @ takeWhile (\<lambda>c. c \<noteq> CHR ''='') line @
                ''" required:"true"` // TODO: set the correct data type.\<newline>'')
              (filter (\<lambda>line. CHR ''='' \<in> set line) lines)) @
      ''}\<newline>'',
      None)\<close>
proof -
  have "validLine_spec = (\<lambda>line. CHR ''='' \<in> set line)"
    by (simp add: fun_eq_iff validLine_spec_def)
  then show ?thesis
    by (simp add: generateStructFromEnvFile_eq NewScanner_def fieldBlock_spec_def
        fieldLine_spec_def fieldDeclaration_def sourceKey_spec_def structHeader_def TAB_def)
qed

text \<open>
  C2, as the code has it. A line with no \<open>=\<close> yields no field declaration and no
  error: the result is the same as without the line. A line with one \<open>=\<close> or more is
  split at the first one and does yield a field, whose key is the part left of that
  \<open>=\<close>: alone it gives the block with this one field, and among other lines the result
  is not the same as without it. For the lines \<open>invalid\<close>, \<open>var=value\<close> the block has
  exactly one field, \<open>Var\<close>; for the line \<open>a=b=c\<close> it has the field \<open>A\<close>.
\<close>

theorem line_without_equals_skipped:
  \<open>(CHR ''='' \<notin> set line \<longrightarrow>
      generateStructFromEnvFile (NewScanner (before @ line # after) e) =
      generateStructFromEnvFile (NewScanner (before @ after) e)) \<and>
   (CHR ''='' \<in> set line \<longrightarrow>
      generateStructFromEnvFile (NewScanner [line] None) =
        (structHeader @
         [CHR 0x09] @ toCamelCase (takeWhile (\<lambda>c. c \<noteq> CHR ''='') line) @
         '' interface{} `envconfig:"'' @ takeWhile (\<lambda>c. c \<noteq> CHR ''='') line @
         ''" required:"true"` // TODO: set the correct data type.\<newline>'' @
         ''}\<newline>'', None) \<and>
      generateStructFromEnvFile (NewScanner (before @ line # after) None) \<noteq>
      generateStructFromEnvFile (NewScanner (before @ after) None)) \<and>
   generateStructFromEnvFile (NewScanner [''invalid'', ''var=value''] None) =
     (structHeader @ fieldDeclaration ''Var'' ''interface{}'' ''var'' @ ''}\<newline>'', None) \<and>
   generateStructFromEnvFile (NewScanner [''a=b=c''] None) =
     (structHeader @ fieldDeclaration ''A'' ''interface{}'' ''a'' @ ''}\<newline>'', None)\<close>
proof (intro conjI impI)
  assume "CHR ''='' \<notin> set line"
  then show "generateStructFromEnvFile (NewScanner (before @ line # after) e) =
      generateStructFromEnvFile (NewScanner (before @ after) e)"
    by (cases e)
       (simp_all add: generateStructFromEnvFile_eq NewScanner_def fieldBlock_spec_def
          validLine_spec_def)
next
  assume "CHR ''='' \<in> set line"
  then show \<open>generateStructFromEnvFile (NewScanner [line] None) =
      (structHeader @
       [CHR 0x09] @ toCamelCase (takeWhile (\<lambda>c. c \<noteq> CHR ''='') line) @
       '' interface{} `envconfig:"'' @ takeWhile (\<lambda>c. c \<noteq> CHR ''='') line @
       ''" required:"true"` // TODO: set the correct data type.\<newline>'' @
       ''}\<newline>'', None)\<close>
    by (simp add: generateStructFromEnvFile_eq NewScanner_def fieldBlock_spec_def
        validLine_spec_def sourceKey_spec_def fieldLine_spec_def fieldDeclaration_def TAB_def)
next
  assume "CHR ''='' \<in> set line"
  then have "validLine_spec line"
    by (simp add: validLine_spec_def)
  then show "generateStructFromEnvFile (NewScanner (before @ line # after) None) \<noteq>
      generateStructFromEnvFile (NewScanner (before @ after) None)"
    by (simp add: generateStructFromEnvFile_eq NewScanner_def fieldBlock_spec_valid_line)
next
  have "toCamelCase ''var'' = ''Var''" by code_simp
  then show "generateStructFromEnvFile (NewScanner [''invalid'', ''var=value''] None) =
      (structHeader @ fieldDeclaration ''Var'' ''interface{}'' ''var'' @ ''}\<newline>'', None)"
    by (simp add: generateStructFromEnvFile_eq NewScanner_def fieldBlock_spec_def
        validLine_spec_def sourceKey_spec_def fieldLine_spec_def)
next
  have "toCamelCase ''a'' = ''A''" by code_simp
  then show "generateStructFromEnvFile (NewScanner [''a=b=c''] None) =
      (structHeader @ fieldDeclaration ''A'' ''interface{}'' ''a'' @ ''}\<newline>'', None)"
    by (simp add: generateStructFromEnvFile_eq NewScanner_def fieldBlock_spec_def
        validLine_spec_def sourceKey_spec_def fieldLine_spec_def)
qed

text \<open>
  The line \<open>invalid\<close> before \<open>var=value\<close> changes nothing; the line \<open>a=b=c\<close> before
  it does.
\<close>

theorem line_without_equals_skipped_witness:
  "CHR ''='' \<notin> set ''invalid'' \<and>
   generateStructFromEnvFile (NewScanner [''invalid'', ''var=value''] None) =
   generateStructFromEnvFile (NewScanner [''var=value''] None) \<and>
   CHR ''='' \<in> set ''a=b=c'' \<and>
   generateStructFromEnvFile (NewScanner [''a=b=c'', ''var=value''] None) \<noteq>
   generateStructFromEnvFile (NewScanner [''var=value''] None)"
proof -
  have h1: "CHR ''='' \<notin> set ''invalid''" by simp
  have h2: "CHR ''='' \<in> set ''a=b=c''" by simp
  from h1 h2 line_without_equals_skipped [of "''invalid''" "[]" "[''var=value'']" None]
    line_without_equals_skipped [of "''a=b=c''" "[]" "[''var=value'']" None]
  show ?thesis by simp
qed

text \<open>
  The claim as stated fails: the line \<open>a=b=c\<close> has two \<open>=\<close>, not exactly one, and the
  synthesizer emits the field \<open>A\<close> for it.
\<close>

theorem line_with_two_equals_counterexample:
  \<open>strings_Count ''a=b=c'' CHR ''='' = 2 \<and>
   generateStructFromEnvFile (NewScanner [''a=b=c''] None) =
     (structHeader @ fieldDeclaration ''A'' ''interface{}'' ''a'' @ ''}\<newline>'', None)\<close>
proof -
  have "toCamelCase ''a'' = ''A''" by code_simp
  then show ?thesis
    by (simp add: generateStructFromEnvFile_eq NewScanner_def fieldBlock_spec_def
        validLine_spec_def sourceKey_spec_def fieldLine_spec_def strings_Count_def)
qed

text \<open>
  C4, as the code has it. The identifier of every emitted field is \<open>toCamelCase\<close> of
  the field's source key and of nothing else, so equal keys get equal identifiers; it is
  non-empty exactly when the key has a character other than \<open>_\<close>.
\<close>

theorem field_identifier_from_key:
  \<open>generateStructFromEnvFile (NewScanner lines None) =
     (structHeader @
      concat (map (\<lambda>key. fieldDeclaration (toCamelCase key) ''interface{}'' key)
                (map sourceKey_spec (filter validLine_spec lines))) @
      ''}\<newline>'', None) \<and>
   (toCamelCase key \<noteq> []) = (\<exists>c \<in> set key. c \<noteq> CHR ''_'')\<close>
  by (simp add: generateStructFromEnvFile_eq NewScanner_def fieldBlock_spec_def
      fieldLine_spec_def toCamelCase_Nil comp_def)

theorem field_identifier_from_key_witness:
  \<open>generateStructFromEnvFile (NewScanner [''DATABASE_URL=x'', ''DATABASE_URL=y''] None) =
     (structHeader @
      fieldDeclaration ''DatabaseUrl'' ''interface{}'' ''DATABASE_URL'' @
      fieldDeclaration ''DatabaseUrl'' ''interface{}'' ''DATABASE_URL'' @
      ''}\<newline>'', None) \<and>
   toCamelCase ''DATABASE_URL'' \<noteq> []\<close>
proof -
  have c: "toCamelCase ''DATABASE_URL'' = ''DatabaseUrl''" by code_simp
  from field_identifier_from_key
    [of "[''DATABASE_URL=x'', ''DATABASE_URL=y'']" "''DATABASE_URL''"]
  show ?thesis
    by (simp add: c validLine_spec_def sourceKey_spec_def)
qed

text \<open>
  The claim as stated fails: for the line \<open>=value\<close> the key is empty, and the
  synthesizer emits a field whose identifier is empty.
\<close>

theorem empty_identifier_counterexample:
  \<open>toCamelCase (strings_SplitN ''=value'' CHR ''='' 2 ! 0) = [] \<and>
   generateStructFromEnvFile (NewScanner [''=value''] None) =
     (structHeader @ fieldDeclaration [] ''interface{}'' [] @ ''}\<newline>'', None)\<close>
proof -
  have "toCamelCase [] = []" by (simp add: toCamelCase_Nil)
  then show ?thesis
    by (simp add: generateStructFromEnvFile_eq NewScanner_def fieldBlock_spec_def
        validLine_spec_def sourceKey_spec_def fieldLine_spec_def strings_SplitN_eq)
qed

text \<open>
  C5. For both operations, when \<open>Mkdir\<close> returns an error: if \<open>os.IsExist\<close> does not
  hold of it, the operation returns that error wrapped with \<open>creating dir <pkg>\<close>, no
  paths, and the world as \<open>Mkdir\<close> left it (no file is created, nothing else is
  called); if \<open>os.IsExist\<close> holds of it, the operation goes on exactly as with a
  \<open>Mkdir\<close> that succeeds.
\<close>

theorem mkdir_error:
  assumes "fs_Mkdir P (packageName g) w = (Some e, w1)"
  shows "(\<not> os_IsExist e \<longrightarrow>
            GenerateConfigPackage P g w =
              ((None, Some (Wrapped e (''creating dir '' @ packageName g))), w1) \<and>
            GenerateConfigPackageFromEnvFile P g envFilePath w =
              ((None, Some (Wrapped e (''creating dir '' @ packageName g))), w1)) \<and>
         (os_IsExist e \<longrightarrow>
            GenerateConfigPackage P g w =
              GenerateConfigPackage (P\<lparr>fs_Mkdir := \<lambda>dirName s. (None, w1)\<rparr>) g w \<and>
            GenerateConfigPackageFromEnvFile P g envFilePath w =
              GenerateConfigPackageFromEnvFile (P\<lparr>fs_Mkdir := \<lambda>dirName s. (None, w1)\<rparr>) g
                envFilePath w)"
proof (intro conjI impI)
  assume n: "\<not> os_IsExist e"
  show "GenerateConfigPackage P g w =
      ((None, Some (Wrapped e (''creating dir '' @ packageName g))), w1)"
    by (simp add: GenerateConfigPackage_def generateConfigReaderFiles_Mkdir_fails [OF assms n])
  show "GenerateConfigPackageFromEnvFile P g envFilePath w =
      ((None, Some (Wrapped e (''creating dir '' @ packageName g))), w1)"
    by (simp add: GenerateConfigPackageFromEnvFile_def
        generateConfigReaderFilesFromEnvFile_Mkdir_fails [OF assms n])
next
  assume x: "os_IsExist e"
  show "GenerateConfigPackage P g w =
      GenerateConfigPackage (P\<lparr>fs_Mkdir := \<lambda>dirName s. (None, w1)\<rparr>) g w"
    by (simp only: GenerateConfigPackage_def
        generateConfigReaderFiles_Mkdir_exists [OF assms x, symmetric])
  show "GenerateConfigPackageFromEnvFile P g envFilePath w =
      GenerateConfigPackageFromEnvFile (P\<lparr>fs_Mkdir := \<lambda>dirName s. (None, w1)\<rparr>) g
        envFilePath w"
    by (simp only: GenerateConfigPackageFromEnvFile_def
        generateConfigReaderFilesFromEnvFile_Mkdir_exists [OF assms x, symmetric])
qed

text \<open>
  With the recording providers: a \<open>Mkdir\<close> failing with \<open>mkdir error\<close> (not an
  "already exists" error) ends both operations with the message of the package's tests
  and a log holding the \<open>Mkdir\<close> call only; a \<open>Mkdir\<close> failing with an "already
  exists" error lets the default generation return its three paths.
\<close>

theorem mkdir_error_witness:
  "fs_Mkdir (recordingProviders (Some (Errno False ''mkdir error'')) None (\<lambda>_. None)
       (NewScanner [] None)) (packageName (NewGenerator ''config'')) [] =
     (Some (Errno False ''mkdir error''), [''Mkdir config'']) \<and>
   \<not> os_IsExist (Errno False ''mkdir error'') \<and>
   GenerateConfigPackage (recordingProviders (Some (Errno False ''mkdir error'')) None
       (\<lambda>_. None) (NewScanner [] None)) (NewGenerator ''config'') [] =
     ((None, Some (Wrapped (Errno False ''mkdir error'') ''creating dir config'')),
      [''Mkdir config'']) \<and>
   GenerateConfigPackageFromEnvFile (recordingProviders (Some (Errno False ''mkdir error''))
       None (\<lambda>_. None) (NewScanner [] None)) (NewGenerator ''config'') ''.env-local'' [] =
     ((None, Some (Wrapped (Errno False ''mkdir error'') ''creating dir config'')),
      [''Mkdir config'']) \<and>
   error_Error (Wrapped (Errno False ''mkdir error'') ''creating dir config'') =
     ''creating dir config: mkdir error'' \<and>
   fs_Mkdir (recordingProviders (Some (Errno True ''file exists'')) None (\<lambda>_. None)
       (NewScanner [] None)) (packageName (NewGenerator ''config'')) [] =
     (Some (Errno True ''file exists''), [''Mkdir config'']) \<and>
   os_IsExist (Errno True ''file exists'') \<and>
   fst (GenerateConfigPackage (recordingProviders (Some (Errno True ''file exists'')) None
       (\<lambda>_. None) (NewScanner [] None)) (NewGenerator ''config'') []) =
     (Some [''config/config.go'', ''config/config_test.go'', ''.env''], None)"
proof -
  let ?F = "recordingProviders (Some (Errno False ''mkdir error'')) None (\<lambda>_. None)
      (NewScanner [] None)"
  let ?X = "recordingProviders (Some (Errno True ''file exists'')) None (\<lambda>_. None)
      (NewScanner [] None)"
  let ?g = "NewGenerator ''config''"
  have f: "fs_Mkdir ?F (packageName ?g) [] =
      (Some (Errno False ''mkdir error''), [''Mkdir config''])"
    by (simp add: recordingProviders_def NewGenerator_def)
  have x: "fs_Mkdir ?X (packageName ?g) [] =
      (Some (Errno True ''file exists''), [''Mkdir config''])"
    by (simp add: recordingProviders_def NewGenerator_def)
  have r: "fst (GenerateConfigPackage
        (?X\<lparr>fs_Mkdir := \<lambda>dirName s. (None, [''Mkdir config''])\<rparr>) ?g []) =
      (Some [''config/config.go'', ''config/config_test.go'', ''.env''], None)"
    by (simp add: run_defs)
  from f x r mkdir_error [OF f, of "''.env-local''"] mkdir_error [OF x, of "''.env-local''"]
  show ?thesis
    by (simp add: NewGenerator_def)
qed

text \<open>
  C6. In a generation from an environment file (the path is not empty, the directory
  step passes and the main file is created): when opening the environment file fails,
  the operation returns the open error wrapped with \<open>opening env file <path>\<close> and no
  paths, and the world it leaves is the world \<open>Open\<close> left, closed by the main file's
  deferred \<open>Close\<close> and by nothing else: \<open>lr\<close>, which makes the line source and whose
  reading changes the world, has not run, and no template is parsed, no file read or
  written. So the outcome is the same whatever line-reader factory \<open>lr\<close> is installed.
\<close>

theorem open_error:
  assumes "envFilePath \<noteq> []"
    and "fs_Mkdir P (packageName g) w = (merr, w1)"
    and "\<not> (merr \<noteq> None \<and> \<not> os_IsExist (the merr))"
    and "fs_Create P (packageName g @ ''/'' @ configReadFileName) w1 = ((f, None), w2)"
    and "fs_Open P envFilePath w2 = ((ef, Some e), w3)"
  shows "GenerateConfigPackageFromEnvFile P g envFilePath w =
           ((None, Some (Wrapped e (''opening env file '' @ envFilePath))),
            file_Close P f w3) \<and>
         GenerateConfigPackageFromEnvFile (P\<lparr>lr := any\<rparr>) g envFilePath w =
           GenerateConfigPackageFromEnvFile P g envFilePath w"
proof -
  have a: "generateConfigReaderFilesFromEnvFile P g envFilePath w =
      ((None, Some (Wrapped e (''opening env file '' @ envFilePath))), file_Close P f w3)"
    using assms by (rule generateConfigReaderFilesFromEnvFile_Open_fails)
  have "generateConfigReaderFilesFromEnvFile (P\<lparr>lr := any\<rparr>) g envFilePath w =
      ((None, Some (Wrapped e (''opening env file '' @ envFilePath))),
       file_Close (P\<lparr>lr := any\<rparr>) f w3)"
    using assms by (intro generateConfigReaderFilesFromEnvFile_Open_fails) simp_all
  then have b: "generateConfigReaderFilesFromEnvFile (P\<lparr>lr := any\<rparr>) g envFilePath w =
      ((None, Some (Wrapped e (''opening env file '' @ envFilePath))), file_Close P f w3)"
    by simp
  show ?thesis
    by (simp add: GenerateConfigPackageFromEnvFile_def a b)
qed

text \<open>
  With the recording providers and an \<open>Open\<close> failing with \<open>open error\<close>: the message
  is the one of the package's tests, and the log ends with \<open>Open\<close> and the \<open>Close\<close> of
  the main file, with no \<open>lr\<close>. When \<open>Open\<close> succeeds, the log has \<open>lr\<close> right after
  \<open>Open\<close>.
\<close>

theorem open_error_witness:
  "GenerateConfigPackageFromEnvFile
       (recordingProviders None (Some (Errno False ''open error'')) (\<lambda>_. None)
          (NewScanner [''invalid'', ''var=value''] None))
       (NewGenerator ''config'') ''.env-local'' [] =
     ((None, Some (Wrapped (Errno False ''open error'') ''opening env file .env-local'')),
      [''Mkdir config'', ''Create config/config.go'', ''Open .env-local'',
       ''Close config/config.go'']) \<and>
   error_Error (Wrapped (Errno False ''open error'') ''opening env file .env-local'') =
     ''opening env file .env-local: open error'' \<and>
   take 5 (snd (GenerateConfigPackageFromEnvFile
       (recordingProviders None None (\<lambda>_. None)
          (NewScanner [''invalid'', ''var=value''] None))
       (NewGenerator ''config'') ''.env-local'' [])) =
     [''Mkdir config'', ''Create config/config.go'', ''Open .env-local'',
      ''lr .env-local'', ''Close .env-local'']"
proof -
  let ?P = "recordingProviders None (Some (Errno False ''open error'')) (\<lambda>_. None)
      (NewScanner [''invalid'', ''var=value''] None)"
  let ?g = "NewGenerator ''config''"
  have h1: "''.env-local'' \<noteq> []" by simp
  have h2: "fs_Mkdir ?P (packageName ?g) [] = (None, [''Mkdir config''])"
    by (simp add: recordingProviders_def NewGenerator_def)
  have h3: "\<not> ((None :: error option) \<noteq> None \<and> \<not> os_IsExist (the None))" by simp
  have h4: "fs_Create ?P (packageName ?g @ ''/'' @ configReadFileName) [''Mkdir config''] =
      ((''config/config.go'', None), [''Mkdir config'', ''Create config/config.go''])"
    by (simp add: recordingProviders_def NewGenerator_def configReadFileName_def)
  have h5: "fs_Open ?P ''.env-local'' [''Mkdir config'', ''Create config/config.go''] =
      ((''.env-local'', Some (Errno False ''open error'')),
       [''Mkdir config'', ''Create config/config.go'', ''Open .env-local''])"
    by (simp add: recordingProviders_def)
  have ok: "take 5 (snd (GenerateConfigPackageFromEnvFile
        (recordingProviders None None (\<lambda>_. None)
           (NewScanner [''invalid'', ''var=value''] None))
        (NewGenerator ''config'') ''.env-local'' [])) =
      [''Mkdir config'', ''Create config/config.go'', ''Open .env-local'',
       ''lr .env-local'', ''Close .env-local'']"
    by (simp add: run_defs)
  from ok open_error [OF h1 h2 h3 h4 h5]
  show ?thesis
    by (simp add: recordingProviders_def)
qed

text \<open>
  C10. Whenever one of the two operations (or the function it delegates to) returns an
  error, the list of paths it returns is \<open>nil\<close>, never the paths of the files written
  before the failing step.
\<close>

theorem error_returns_nil:
  "(snd (fst (GenerateConfigPackage P g w)) \<noteq> None \<longrightarrow>
      fst (fst (GenerateConfigPackage P g w)) = None) \<and>
   (snd (fst (GenerateConfigPackageFromEnvFile P g envFilePath w)) \<noteq> None \<longrightarrow>
      fst (fst (GenerateConfigPackageFromEnvFile P g envFilePath w)) = None) \<and>
   (snd (fst (generateConfigReaderFiles P g w)) \<noteq> None \<longrightarrow>
      fst (fst (generateConfigReaderFiles P g w)) = None) \<and>
   (snd (fst (generateConfigReaderFilesFromEnvFile P g envFilePath w)) \<noteq> None \<longrightarrow>
      fst (fst (generateConfigReaderFilesFromEnvFile P g envFilePath w)) = None)"
proof (intro conjI impI)
  show "fst (fst (GenerateConfigPackage P g w)) = None"
    if "snd (fst (GenerateConfigPackage P g w)) \<noteq> None"
    using that by (auto simp: GenerateConfigPackage_def split: prod.splits option.splits)
  show "fst (fst (GenerateConfigPackageFromEnvFile P g envFilePath w)) = None"
    if "snd (fst (GenerateConfigPackageFromEnvFile P g envFilePath w)) \<noteq> None"
    using that
    by (auto simp: GenerateConfigPackageFromEnvFile_def split: prod.splits option.splits)
  show "fst (fst (generateConfigReaderFiles P g w)) = None"
    if "snd (fst (generateConfigReaderFiles P g w)) \<noteq> None"
  proof -
    obtain fs err w' where r: "generateConfigReaderFiles P g w = ((fs, err), w')"
      by (metis surj_pair)
    with that obtain e where "err = Some e" by auto
    with r have "fs = None" by (auto dest: generateConfigReaderFiles_nil)
    with r show ?thesis by simp
  qed
  show "fst (fst (generateConfigReaderFilesFromEnvFile P g envFilePath w)) = None"
    if "snd (fst (generateConfigReaderFilesFromEnvFile P g envFilePath w)) \<noteq> None"
  proof -
    obtain fs err w' where
      r: "generateConfigReaderFilesFromEnvFile P g envFilePath w = ((fs, err), w')"
      by (metis surj_pair)
    with that obtain e where "err = Some e" by auto
    with r have "fs = None" by (auto dest: generateConfigReaderFilesFromEnvFile_nil)
    with r show ?thesis by simp
  qed
qed

text \<open>
  With the recording providers and a \<open>Create\<close> that fails for \<open>.env\<close>: the default
  generation has written the main and the test file, and returns the error with no
  paths.
\<close>

theorem error_returns_nil_witness:
  "GenerateConfigPackage
       (recordingProviders None None
          (\<lambda>name. if name = ''.env'' then Some (Errno False ''create error'') else None)
          (NewScanner [] None))
       (NewGenerator ''config'') [] =
     ((None, Some (Wrapped (Errno False ''create error'') ''creating file .env'')),
      [''Mkdir config'', ''Create config/config.go'', ''Parse configReaderMainFile'',
       ''Execute configReaderMainFile'', ''ReadFile config/config.go'', ''Source'',
       ''WriteFile config/config.go'', ''Close config/config.go'',
       ''Create config/config_test.go'', ''Parse configReaderUnitTestFile'',
       ''Execute configReaderUnitTestFile'', ''Close config/config_test.go'',
       ''Create .env''])"
proof -
  let ?P = "recordingProviders None None
      (\<lambda>name. if name = ''.env'' then Some (Errno False ''create error'') else None)
      (NewScanner [] None)"
  let ?g = "NewGenerator ''config''"
  have h: "snd (fst (GenerateConfigPackage ?P ?g [])) \<noteq> None"
    by (simp add: run_defs)
  have s: "snd (fst (GenerateConfigPackage ?P ?g [])) =
      Some (Wrapped (Errno False ''create error'') ''creating file .env'')"
    by (simp add: run_defs)
  have l: "snd (GenerateConfigPackage ?P ?g []) =
      [''Mkdir config'', ''Create config/config.go'', ''Parse configReaderMainFile'',
       ''Execute configReaderMainFile'', ''ReadFile config/config.go'', ''Source'',
       ''WriteFile config/config.go'', ''Close config/config.go'',
       ''Create config/config_test.go'', ''Parse configReaderUnitTestFile'',
       ''Execute configReaderUnitTestFile'', ''Close config/config_test.go'',
       ''Create .env'']"
    by (simp add: run_defs)
  from h error_returns_nil [of ?P ?g "[]" "[]"]
  have "fst (fst (GenerateConfigPackage ?P ?g [])) = None"
    by blast
  with s l show ?thesis
    by (simp add: prod_eq_iff)
qed

end
